theory Spec2Isabelle
  imports Complex_Main
begin

section \<open>Numbers, strings and Python conventions\<close>

text \<open>
  Prices, quantities and balances are Python floats in the source. They are modelled as
  real numbers with exact arithmetic: the rounding error of binary floating point is
  outside this development. The concrete inputs evaluated below are chosen so that the
  exact result and the floating-point result agree (0.0005 / 0.001 is exactly 0.5 in
  floating point too; the other inputs are away from rounding ties).
\<close>

datatype py_error = KeyError | IndexError | ZeroDivisionError

text \<open>\<^verbatim>\<open>str.upper()\<close>, on ASCII letters.\<close>

definition upper_char :: "char \<Rightarrow> char" where
  "upper_char c =
     (let n = (of_char c :: nat) in if 97 \<le> n \<and> n \<le> 122 then char_of (n - 32) else c)"

definition upper :: "string \<Rightarrow> string" where
  "upper s = map upper_char s"

text \<open>
  Python's built-in \<^verbatim>\<open>round(x)\<close> with one argument: the nearest integer, a tie
  going to the even neighbour.
\<close>

definition py_round :: "real \<Rightarrow> int" where
  "py_round x =
     (let f = \<lfloor>x\<rfloor>; d = x - of_int f in
      if d < 1 / 2 then f else if 1 / 2 < d then f + 1 else if even f then f else f + 1)"

text \<open>
  \<^verbatim>\<open>float(f"{x:.3f}")\<close>: the decimal with three places nearest to \<open>x\<close> (the formatting
  rounds the exact value, a tie going to the even last digit).
\<close>

definition fmt3 :: "real \<Rightarrow> real" where
  "fmt3 x = of_int (py_round (x * 1000)) / 1000"

text \<open>Truth value of an optional string: \<^verbatim>\<open>None\<close> and the empty string are false.\<close>

fun truthy :: "string option \<Rightarrow> bool" where
  "truthy None = False"
| "truthy (Some s) = (s \<noteq> [])"

section \<open>Risk manager (\<^verbatim>\<open>src/risk_manager.py\<close>)\<close>

record RiskManager =
  rm_risk_type :: string
  rm_risk_value :: real
  rm_sl_multiplier :: real

text \<open>
  Division raises on a zero divisor. (With the price taken from a data frame the quotient
  is infinite or undefined instead and the rounding of line 230 raises; either way the
  run ends with an exception before any order.)
\<close>

definition py_div :: "real \<Rightarrow> real \<Rightarrow> py_error + real" where
  "py_div a b = (if b = 0 then Inl ZeroDivisionError else Inr (a / b))"

definition calculate_qty :: "RiskManager \<Rightarrow> real \<Rightarrow> real \<Rightarrow> real \<Rightarrow> py_error + real" where
  "calculate_qty self balance entry_price leverage =
     (if rm_risk_type self = ''FIXED_SIZE'' then Inr (rm_risk_value self)
      else if rm_risk_type self = ''PERCENTAGE'' then
        (let allocation = balance * (rm_risk_value self / 100) in py_div allocation entry_price)
      else if rm_risk_type self = ''MARGIN'' then
        (let notional = rm_risk_value self * leverage in py_div notional entry_price)
      else if rm_risk_type self = ''MARGIN_PERCENTAGE'' then
        (let margin_amt = balance * (rm_risk_value self / 100);
             notional = margin_amt * leverage
         in py_div notional entry_price)
      else Inr 0)"


definition get_candle_based_stop_loss ::
  "real \<Rightarrow> string \<Rightarrow> real \<Rightarrow> real \<Rightarrow> real \<Rightarrow> real" where
  "get_candle_based_stop_loss entry_price direction candle_high candle_low multiplier =
     (let candle_size = \<bar>candle_high - candle_low\<bar>;
          distance = candle_size * multiplier
      in if upper direction = ''LONG'' then entry_price - distance
         else if upper direction = ''SHORT'' then entry_price + distance
         else entry_price)"

definition calculate_fixed_point_targets :: "real \<Rightarrow> string \<Rightarrow> real list \<Rightarrow> real list" where
  "calculate_fixed_point_targets entry_price direction points =
     map (\<lambda>p. if upper direction = ''LONG'' then entry_price + p else entry_price - p) points"

section \<open>Trade store (\<^verbatim>\<open>adhoc_trade.py\<close>, persistence)\<close>

text \<open>
  A trade is a Python dict with string keys, written to \<^verbatim>\<open>trades.json\<close>. It is modelled
  as a record with one optional field per key the program uses; \<open>None\<close> stands for a
  key that is absent or holds \<^verbatim>\<open>null\<close>, which is what \<^verbatim>\<open>dict.get\<close> returns in both
  cases. The fields are, in order, the keys \<^verbatim>\<open>id\<close>, \<^verbatim>\<open>symbol\<close>, \<^verbatim>\<open>side\<close>, \<^verbatim>\<open>qty\<close>,
  \<^verbatim>\<open>entry_price\<close>, \<^verbatim>\<open>sl_order_id\<close>, \<^verbatim>\<open>tp_order_ids\<close>, \<^verbatim>\<open>targets\<close>,
  \<^verbatim>\<open>monitor_trigger_level\<close> and \<^verbatim>\<open>sl_moved\<close>.
\<close>

record trade =
  t_id :: "string option"
  t_symbol :: "string option"
  t_side :: "string option"
  t_qty :: "real option"
  t_entry_price :: "real option"
  t_sl_order_id :: "string option"
  t_tp_order_ids :: "string list option"
  t_targets :: "real list option"
  t_monitor_trigger_level :: "int option"
  t_sl_moved :: "bool option"

text \<open>A key together with the value assigned to it: the pair \<^verbatim>\<open>(key, value)\<close> of \<^verbatim>\<open>update_trade\<close>.\<close>

datatype field_value =
    Set_id "string option"
  | Set_symbol "string option"
  | Set_side "string option"
  | Set_qty "real option"
  | Set_entry_price "real option"
  | Set_sl_order_id "string option"
  | Set_tp_order_ids "string list option"
  | Set_targets "real list option"
  | Set_monitor_trigger_level "int option"
  | Set_sl_moved "bool option"

text \<open>\<^verbatim>\<open>t[key] = value\<close>\<close>

fun set_item :: "field_value \<Rightarrow> trade \<Rightarrow> trade" where
  "set_item (Set_id v) t = t\<lparr>t_id := v\<rparr>"
| "set_item (Set_symbol v) t = t\<lparr>t_symbol := v\<rparr>"
| "set_item (Set_side v) t = t\<lparr>t_side := v\<rparr>"
| "set_item (Set_qty v) t = t\<lparr>t_qty := v\<rparr>"
| "set_item (Set_entry_price v) t = t\<lparr>t_entry_price := v\<rparr>"
| "set_item (Set_sl_order_id v) t = t\<lparr>t_sl_order_id := v\<rparr>"
| "set_item (Set_tp_order_ids v) t = t\<lparr>t_tp_order_ids := v\<rparr>"
| "set_item (Set_targets v) t = t\<lparr>t_targets := v\<rparr>"
| "set_item (Set_monitor_trigger_level v) t = t\<lparr>t_monitor_trigger_level := v\<rparr>"
| "set_item (Set_sl_moved v) t = t\<lparr>t_sl_moved := v\<rparr>"

text \<open>
  The state of the file \<^verbatim>\<open>trades.json\<close>: it does not exist, it exists and cannot be
  parsed, or it holds a list of trades.
\<close>

datatype trades_file = Absent | Unreadable | Stored "trade list"

fun load_trades :: "trades_file \<Rightarrow> trade list" where
  "load_trades Absent = []"
| "load_trades Unreadable = []"
| "load_trades (Stored trades) = trades"

definition save_trades :: "trade list \<Rightarrow> trades_file" where
  "save_trades trades = Stored trades"

definition add_trade :: "trade \<Rightarrow> trades_file \<Rightarrow> trades_file" where
  "add_trade trade_data file = (let trades = load_trades file in save_trades (trades @ [trade_data]))"

text \<open>
  The loop of \<^verbatim>\<open>update_trade\<close>: the first trade whose id equals \<open>trade_id\<close> is changed
  and the list is saved; \<open>None\<close> when the loop ends without a match, and nothing is saved.
\<close>

fun update_first :: "string option \<Rightarrow> field_value \<Rightarrow> trade list \<Rightarrow> trade list option" where
  "update_first trade_id kv [] = None"
| "update_first trade_id kv (t # ts) =
     (if t_id t = trade_id then Some (set_item kv t # ts)
      else map_option ((#) t) (update_first trade_id kv ts))"

definition update_trade :: "string option \<Rightarrow> field_value \<Rightarrow> trades_file \<Rightarrow> trades_file" where
  "update_trade trade_id kv file =
     (case update_first trade_id kv (load_trades file) of
        None \<Rightarrow> file
      | Some trades \<Rightarrow> save_trades trades)"

definition delete_trade :: "string option \<Rightarrow> trades_file \<Rightarrow> trades_file" where
  "delete_trade trade_id file =
     (let trades = load_trades file;
          trades = filter (\<lambda>t. t_id t \<noteq> trade_id) trades
      in save_trades trades)"

section \<open>Interactions with the exchange\<close>

text \<open>
  The execution client and the data client talk to the exchange. Their calls are recorded
  in a trace, each with the arguments the program passes and, where the program reads it,
  the answer the exchange gave. An answer to \<^verbatim>\<open>place_order\<close> is \<open>None\<close> when the request
  failed (\<^verbatim>\<open>_send_signed_request\<close> returns \<^verbatim>\<open>None\<close>) and otherwise \<open>Some i\<close>, a JSON object
  whose entry \<^verbatim>\<open>id\<close> is \<open>i\<close>; an answer to \<^verbatim>\<open>edit_order\<close> is likewise \<open>None\<close> or
  \<open>Some c\<close>, an object whose entry \<^verbatim>\<open>code\<close> is \<open>c\<close>. Progress messages and pauses
  (\<^verbatim>\<open>print\<close>, \<^verbatim>\<open>time.sleep\<close>) are not recorded, except the plan shown to the operator
  before the confirmation prompt.
\<close>

type_synonym order_reply = "string option option"
type_synonym edit_reply = "int option option"

record order_request =
  o_symbol :: string
  o_side :: string
  o_qty :: "real option"
  o_type :: string
  o_price :: "real option"
  o_stop_price :: "real option"

datatype event =
    Set_leverage string real
  | Get_klines string string nat
  | Get_balance string
  | Plan_displayed string real real real "real list"
  | Place_order order_request order_reply
  | Cancel_order string
  | Edit_order string "real option" edit_reply

text \<open>\<^verbatim>\<open>resp and resp.get('id')\<close>\<close>

fun reply_id :: "order_reply \<Rightarrow> string option" where
  "reply_id None = None"
| "reply_id (Some i) = (if truthy i then i else None)"

text \<open>\<^verbatim>\<open>edit_resp and edit_resp.get('code') == 200\<close>\<close>

definition edit_ok :: "edit_reply \<Rightarrow> bool" where
  "edit_ok edit_resp = (edit_resp = Some (Some 200))"

text \<open>How a run of the program ends: each early \<^verbatim>\<open>return\<close>, an uncaught exception, or the
  operator's interrupt of the monitoring loop.\<close>

datatype ending =
    Usage_error
  | API_keys_missing
  | No_open_trades
  | Quantity_too_small
  | Not_confirmed
  | Market_order_failed
  | No_SL_order_id
  | Interrupted
  | Raised py_error

record outcome =
  ending :: ending
  stored :: trades_file
  trace :: "event list"

section \<open>Monitor (\<^verbatim>\<open>monitor_trade\<close>)\<close>

text \<open>
  What the outside world supplies during one iteration of the polling loop: the close of
  the latest candle (\<open>None\<close> when the data frame is empty), and the answers the exchange
  would give to an edit and to a replacement order in this iteration.
\<close>

record tick =
  latest_close :: "real option"
  edit_answer :: edit_reply
  place_answer :: order_reply

text \<open>The variables of \<^verbatim>\<open>monitor_trade\<close> that change in the loop, the file and the trace.\<close>

record monitor_state =
  m_sl_order_id :: string
  m_sl_moved :: bool
  m_file :: trades_file
  m_trace :: "event list"

definition record_event :: "event \<Rightarrow> monitor_state \<Rightarrow> monitor_state" where
  "record_event e s = s\<lparr>m_trace := m_trace s @ [e]\<rparr>"

text \<open>Lines 100 to 104: has the price reached the trigger target?\<close>

definition hit :: "string option \<Rightarrow> real \<Rightarrow> real \<Rightarrow> bool" where
  "hit side curr_price trigger_pr =
     (if side = Some ''LONG'' \<and> curr_price \<ge> trigger_pr then True
      else if side = Some ''SHORT'' \<and> curr_price \<le> trigger_pr then True
      else False)"

text \<open>Lines 110 to 126: move the stop-loss to the entry price, by an edit or, when the edit
  fails, by cancelling the order and placing a new one.\<close>

definition move_sl :: "trade \<Rightarrow> string \<Rightarrow> tick \<Rightarrow> monitor_state \<Rightarrow> monitor_state" where
  "move_sl trade symbol tk s =
     (let entry_price = t_entry_price trade;
          side = t_side trade;
          qty = t_qty trade;
          trade_id = t_id trade;
          sl_order_id = m_sl_order_id s;
          edit_resp = edit_answer tk;
          s = record_event (Edit_order sl_order_id entry_price edit_resp) s
      in if edit_ok edit_resp then
           s\<lparr>m_sl_moved := True,
              m_file := update_trade trade_id (Set_sl_moved (Some True)) (m_file s)\<rparr>
         else
           (let s = record_event (Cancel_order sl_order_id) s;
                sl_side = (if side = Some ''LONG'' then ''sell'' else ''buy'');
                new_sl_resp = place_answer tk;
                s = record_event
                      (Place_order \<lparr>o_symbol = symbol, o_side = sl_side, o_qty = qty,
                                     o_type = ''STOP_MARKET'', o_price = None,
                                     o_stop_price = entry_price\<rparr> new_sl_resp) s
            in case reply_id new_sl_resp of
                 None \<Rightarrow> s
               | Some new_id \<Rightarrow>
                   s\<lparr>m_sl_order_id := new_id,
                      m_sl_moved := True,
                      m_file := update_trade trade_id (Set_sl_moved (Some True))
                                  (update_trade trade_id (Set_sl_order_id (Some new_id))
                                     (m_file s))\<rparr>))"

text \<open>One iteration of the \<^verbatim>\<open>while True\<close> loop, lines 75 to 126.\<close>

definition monitor_step :: "trade \<Rightarrow> string \<Rightarrow> tick \<Rightarrow> monitor_state \<Rightarrow> monitor_state" where
  "monitor_step trade symbol tk s =
     (let monitor_trigger_level =
            (case t_monitor_trigger_level trade of None \<Rightarrow> 0 | Some l \<Rightarrow> l);
          targets = (case t_targets trade of None \<Rightarrow> [] | Some ts \<Rightarrow> ts);
          side = t_side trade;
          s = record_event (Get_klines symbol ''1m'' 1) s
      in case latest_close tk of
           None \<Rightarrow> s
         | Some curr_price \<Rightarrow>
             if monitor_trigger_level > 0 \<and> \<not> m_sl_moved s then
               (let target_idx = monitor_trigger_level - 1 in
                if 0 \<le> target_idx \<and> target_idx < int (length targets) then
                  (let trigger_pr = targets ! nat target_idx in
                   if hit side curr_price trigger_pr then move_sl trade symbol tk s else s)
                else s)
             else s)"

text \<open>
  The loop runs until the operator interrupts it. A run is given by the iterations
  completed before the interrupt, one \<open>tick\<close> for each. An interrupt inside an
  iteration ends the loop there, after some of the calls of that iteration.
\<close>

primrec monitor_loop :: "trade \<Rightarrow> string \<Rightarrow> tick list \<Rightarrow> monitor_state \<Rightarrow> monitor_state" where
  "monitor_loop trade symbol [] s = s"
| "monitor_loop trade symbol (tk # tks) s =
     monitor_loop trade symbol tks (monitor_step trade symbol tk s)"

definition monitor_start :: "trade \<Rightarrow> string \<Rightarrow> trades_file \<Rightarrow> monitor_state" where
  "monitor_start trade sl_order_id f =
     \<lparr>m_sl_order_id = sl_order_id,
      m_sl_moved = (case t_sl_moved trade of None \<Rightarrow> False | Some b \<Rightarrow> b),
      m_file = f, m_trace = []\<rparr>"

definition monitor_trade :: "trade \<Rightarrow> tick list \<Rightarrow> trades_file \<Rightarrow> outcome" where
  "monitor_trade trade ticks f =
     (case t_symbol trade of
        None \<Rightarrow> \<lparr>ending = Raised KeyError, stored = f, trace = []\<rparr>
      | Some symbol \<Rightarrow>
          (case t_sl_order_id trade of
             None \<Rightarrow> \<lparr>ending = No_SL_order_id, stored = f, trace = []\<rparr>
           | Some sl_order_id \<Rightarrow>
               if sl_order_id = [] then \<lparr>ending = No_SL_order_id, stored = f, trace = []\<rparr>
               else
                 (let s = monitor_loop trade symbol ticks (monitor_start trade sl_order_id f)
                  in \<lparr>ending = Interrupted, stored = m_file s, trace = m_trace s\<rparr>)))"

section \<open>Entry and resume (\<^verbatim>\<open>main\<close>)\<close>

record candle =
  c_high :: real
  c_low :: real
  c_close :: real

text \<open>
  The values \<^verbatim>\<open>main\<close> reads from \<^verbatim>\<open>config.json\<close>, after the defaults of the source have
  been applied to absent keys: \<^verbatim>\<open>leverage\<close>, \<^verbatim>\<open>risk.sl_candle_multiplier\<close>,
  \<^verbatim>\<open>risk.tp_fixed_points\<close>, \<^verbatim>\<open>risk.move_sl_to_entry_when_tp_hit\<close>, \<^verbatim>\<open>position_size.type\<close>
  and \<^verbatim>\<open>position_size.value\<close>.
\<close>

record config =
  cfg_leverage :: real
  cfg_sl_candle_multiplier :: real
  cfg_tp_fixed_points :: "real list"
  cfg_move_sl_to_entry_when_tp_hit :: int
  cfg_position_size_type :: string
  cfg_position_size_value :: real

text \<open>
  Everything one run of \<^verbatim>\<open>main\<close> receives from outside: the environment variables, the
  command line, the configuration, the file of trades, the candles of the planning fetch,
  the balance, the operator's answer to the prompt (stripped and in lower case), the
  exchange's answers to the entry order, to the stop-loss order and to the take-profit
  orders in turn, the clock rendered as the new trade's id, and the iterations of the
  monitoring loop.
\<close>

record world =
  env_api_key :: "string option"
  env_api_secret :: "string option"
  args_side :: string
  args_size :: "real option"
  w_config :: config
  w_trades_json :: trades_file
  w_klines :: "candle list"
  w_balance :: real
  w_confirm :: string
  w_entry_answer :: order_reply
  w_sl_answer :: order_reply
  w_tp_answer :: "nat \<Rightarrow> order_reply"
  w_clock :: string
  w_ticks :: "tick list"

definition finish :: "ending \<Rightarrow> trades_file \<Rightarrow> event list \<Rightarrow> outcome" where
  "finish e f tr = \<lparr>ending = e, stored = f, trace = tr\<rparr>"

text \<open>Lines 179 to 193: the sizing policy, from the configuration or the command line.\<close>

definition sizing_policy :: "world \<Rightarrow> string \<times> real" where
  "sizing_policy w =
     (let pos_type = upper (cfg_position_size_type (w_config w));
          pos_value = cfg_position_size_value (w_config w);
          (pos_type, pos_value) =
            (case args_size w of None \<Rightarrow> (pos_type, pos_value) | Some sz \<Rightarrow> (''FIXED'', sz));
          rm_type =
            (if pos_type = ''PERCENTAGE'' then ''PERCENTAGE''
             else if pos_type = ''MARGIN'' then ''MARGIN''
             else if pos_type = ''MARGIN_PERCENTAGE'' then ''MARGIN_PERCENTAGE''
             else ''FIXED_SIZE'')
      in (rm_type, pos_value))"

text \<open>Lines 213 to 224: the quantity before rounding.\<close>

definition position_qty ::
  "RiskManager \<Rightarrow> string \<Rightarrow> real \<Rightarrow> real \<Rightarrow> real \<Rightarrow> real \<Rightarrow> py_error + real" where
  "position_qty risk_manager rm_type pos_value balance current_price leverage =
     (if rm_type = ''PERCENTAGE'' then calculate_qty risk_manager balance current_price leverage
      else if rm_type = ''MARGIN'' then calculate_qty risk_manager 0 current_price leverage
      else if rm_type = ''MARGIN_PERCENTAGE'' then
        calculate_qty risk_manager balance current_price leverage
      else Inr pos_value)"

text \<open>Lines 226 to 231: rounding to the lot step.\<close>

definition step_size :: real where
  "step_size = 1 / 1000"

definition round_to_step :: "real \<Rightarrow> real" where
  "round_to_step qty =
     (let steps = qty / step_size;
          qty = of_int (py_round steps) * step_size
      in fmt3 qty)"

text \<open>Lines 269 to 273: one limit order per target; the ids of those the exchange accepted.\<close>

fun place_take_profits ::
  "string \<Rightarrow> string \<Rightarrow> real \<Rightarrow> (nat \<Rightarrow> order_reply) \<Rightarrow> nat \<Rightarrow> real list
     \<Rightarrow> event list \<times> string list" where
  "place_take_profits symbol sl_side chunk_qty answer i [] = ([], [])"
| "place_take_profits symbol sl_side chunk_qty answer i (t # targets) =
     (let tp_resp = answer i;
          e = Place_order \<lparr>o_symbol = symbol, o_side = sl_side, o_qty = Some chunk_qty,
                            o_type = ''LIMIT'', o_price = Some t, o_stop_price = None\<rparr> tp_resp;
          (es, tp_ids) = place_take_profits symbol sl_side chunk_qty answer (Suc i) targets
      in (e # es, (case reply_id tp_resp of None \<Rightarrow> tp_ids | Some tp_id \<Rightarrow> tp_id # tp_ids)))"

text \<open>Lines 248 to 292: the orders, the saved record and the monitor, once the operator has
  confirmed.\<close>

definition execute ::
  "world \<Rightarrow> string \<Rightarrow> string \<Rightarrow> real \<Rightarrow> real \<Rightarrow> candle \<Rightarrow> event list \<Rightarrow> outcome" where
  "execute w side symbol qty current_price prev_candle tr =
     (let sl_multiplier = cfg_sl_candle_multiplier (w_config w);
          tp_points = cfg_tp_fixed_points (w_config w);
          monitor_trigger = cfg_move_sl_to_entry_when_tp_hit (w_config w);
          order_side = (if side = ''LONG'' then ''buy'' else ''sell'');
          order = w_entry_answer w;
          tr = tr @ [Place_order \<lparr>o_symbol = symbol, o_side = order_side, o_qty = Some qty,
                                   o_type = ''MARKET'', o_price = None, o_stop_price = None\<rparr>
                       order]
      in case reply_id order of
           None \<Rightarrow> finish Market_order_failed (w_trades_json w) tr
         | Some entry_id \<Rightarrow>
             (let entry_price_executed = current_price;
                  sl_price = get_candle_based_stop_loss entry_price_executed side
                               (c_high prev_candle) (c_low prev_candle) sl_multiplier;
                  targets = calculate_fixed_point_targets entry_price_executed side tp_points;
                  sl_side = (if order_side = ''buy'' then ''sell'' else ''buy'');
                  sl_resp = w_sl_answer w;
                  tr = tr @ [Place_order \<lparr>o_symbol = symbol, o_side = sl_side, o_qty = Some qty,
                                           o_type = ''STOP_MARKET'', o_price = None,
                                           o_stop_price = Some sl_price\<rparr> sl_resp];
                  sl_order_id = (case sl_resp of None \<Rightarrow> None | Some i \<Rightarrow> i);
                  chunk_qty = fmt3 (qty / 4);
                  (es, tp_ids) = place_take_profits symbol sl_side chunk_qty (w_tp_answer w) 0 targets;
                  tr = tr @ es;
                  trade_data =
                    \<lparr>t_id = Some (w_clock w), t_symbol = Some symbol, t_side = Some side,
                     t_qty = Some qty, t_entry_price = Some entry_price_executed,
                     t_sl_order_id = sl_order_id, t_tp_order_ids = Some tp_ids,
                     t_targets = Some targets,
                     t_monitor_trigger_level = Some monitor_trigger,
                     t_sl_moved = Some False\<rparr>;
                  f = add_trade trade_data (w_trades_json w);
                  m = monitor_trade trade_data (w_ticks w) f
              in m\<lparr>trace := tr @ trace m\<rparr>))"

text \<open>Lines 169 to 246: configuration, market data, size and plan of a new trade (the sizing
  policy of lines 179 to 193 is \<open>sizing_policy\<close>).\<close>

definition new_trade :: "world \<Rightarrow> string \<Rightarrow> outcome" where
  "new_trade w side =
     (let leverage = cfg_leverage (w_config w);
          sl_multiplier = cfg_sl_candle_multiplier (w_config w);
          tp_points = cfg_tp_fixed_points (w_config w);
          (rm_type, pos_value) = sizing_policy w;
          symbol = ''B-BTC_USDT'';
          interval = ''15m'';
          risk_manager =
            \<lparr>rm_risk_type = rm_type, rm_risk_value = pos_value,
             rm_sl_multiplier = sl_multiplier\<rparr>;
          tr = [Set_leverage symbol leverage, Get_klines symbol interval 5];
          df = w_klines w
      in if df = [] then finish (Raised KeyError) (w_trades_json w) tr
         else
           (let current_price = c_close (last df) in
            if length df < 2 then finish (Raised IndexError) (w_trades_json w) tr
            else
              (let prev_candle = df ! (length df - 2);
                   tr = tr @ [Get_balance ''USDT'']
               in case position_qty risk_manager rm_type pos_value (w_balance w) current_price
                         leverage of
                    Inl e \<Rightarrow> finish (Raised e) (w_trades_json w) tr
                  | Inr qty \<Rightarrow>
                      (let qty = round_to_step qty in
                       if qty \<le> 0 then finish Quantity_too_small (w_trades_json w) tr
                       else
                         (let sl_price = get_candle_based_stop_loss current_price side
                                           (c_high prev_candle) (c_low prev_candle) sl_multiplier;
                              targets = calculate_fixed_point_targets current_price side tp_points;
                              tr = tr @ [Plan_displayed side qty current_price sl_price targets]
                          in if w_confirm w \<noteq> ''yes'' \<and> w_confirm w \<noteq> ''y'' then
                               finish Not_confirmed (w_trades_json w) tr
                             else execute w side symbol qty current_price prev_candle tr)))))"

text \<open>Lines 156 to 167: resume mode.\<close>

definition resume :: "world \<Rightarrow> outcome" where
  "resume w =
     (let trades = load_trades (w_trades_json w) in
      if trades = [] then finish No_open_trades (w_trades_json w) []
      else monitor_trade (last trades) (w_ticks w) (w_trades_json w))"

definition main :: "world \<Rightarrow> outcome" where
  "main w =
     (if args_side w \<notin> set [''LONG'', ''SHORT'', ''long'', ''short'', ''RESUME''] then
        finish Usage_error (w_trades_json w) []
      else
        (let action = upper (args_side w) in
         if \<not> truthy (env_api_key w) \<or> \<not> truthy (env_api_secret w) then
           finish API_keys_missing (w_trades_json w) []
         else if action = ''RESUME'' then resume w
         else new_trade w action))"

section \<open>Observations on a run\<close>

text \<open>The calls that act on orders at the exchange.\<close>

fun is_order_call :: "event \<Rightarrow> bool" where
  "is_order_call (Place_order r a) = True"
| "is_order_call (Cancel_order i) = True"
| "is_order_call (Edit_order i p a) = True"
| "is_order_call e = False"

text \<open>
  A successful migration action in the trace of the monitor: an edit the exchange
  answered with code 200, or a replacement order it answered with an id.
\<close>

fun migrated :: "event \<Rightarrow> bool" where
  "migrated (Edit_order i p a) = edit_ok a"
| "migrated (Place_order r a) = (reply_id a \<noteq> None)"
| "migrated e = False"

text \<open>
  The conditions of lines 95 to 106 on the trade and the current price, the flag apart:
  the trigger level is positive, it names one of the targets, and the price has reached
  that target.
\<close>

definition trigger_observed :: "trade \<Rightarrow> real \<Rightarrow> bool" where
  "trigger_observed trade curr_price =
     (let monitor_trigger_level =
            (case t_monitor_trigger_level trade of None \<Rightarrow> 0 | Some l \<Rightarrow> l);
          targets = (case t_targets trade of None \<Rightarrow> [] | Some ts \<Rightarrow> ts);
          target_idx = monitor_trigger_level - 1
      in monitor_trigger_level > 0 \<and> 0 \<le> target_idx \<and> target_idx < int (length targets) \<and>
         hit (t_side trade) curr_price (targets ! nat target_idx))"

text \<open>The persisted flags, in the order of the stored trades.\<close>

definition persisted_flags :: "trades_file \<Rightarrow> bool option list" where
  "persisted_flags f = map t_sl_moved (load_trades f)"

text \<open>The entry order of a run, when the exchange confirmed it with an id.\<close>

fun entry_confirmed :: "event list \<Rightarrow> order_request option" where
  "entry_confirmed [] = None"
| "entry_confirmed (Place_order r a # es) =
     (if o_type r = ''MARKET'' \<and> reply_id a \<noteq> None then Some r else entry_confirmed es)"
| "entry_confirmed (e # es) = entry_confirmed es"

text \<open>The orders of one type placed in a run, in order.\<close>

fun orders_of_type :: "string \<Rightarrow> event list \<Rightarrow> order_request list" where
  "orders_of_type ty [] = []"
| "orders_of_type ty (Place_order r a # es) =
     (if o_type r = ty then r # orders_of_type ty es else orders_of_type ty es)"
| "orders_of_type ty (e # es) = orders_of_type ty es"

text \<open>The plan shown to the operator: entry price, stop-loss price and targets.\<close>

fun displayed_plan :: "event list \<Rightarrow> (real \<times> real \<times> real list) option" where
  "displayed_plan [] = None"
| "displayed_plan (Plan_displayed side qty entry sl targets # es) = Some (entry, sl, targets)"
| "displayed_plan (e # es) = displayed_plan es"

text \<open>A persisted flag that was true is still true.\<close>

definition flag_kept :: "bool option \<Rightarrow> bool option \<Rightarrow> bool" where
  "flag_kept old new = (old = Some True \<longrightarrow> new = Some True)"

text \<open>
  The calls the monitor of a trade can make: a price fetch, and the steps of moving the
  stop-loss of that trade to its entry price.
\<close>

fun monitor_call :: "trade \<Rightarrow> event \<Rightarrow> bool" where
  "monitor_call trade (Get_klines symbol interval limit) = (interval = ''1m'' \<and> limit = 1)"
| "monitor_call trade (Edit_order i p a) = (p = t_entry_price trade)"
| "monitor_call trade (Cancel_order i) = True"
| "monitor_call trade (Place_order r a) =
     (o_type r = ''STOP_MARKET'' \<and> o_stop_price r = t_entry_price trade \<and>
      o_qty r = t_qty trade \<and> o_price r = None)"
| "monitor_call trade e = False"

section \<open>Example data\<close>

text \<open>
  The scenario of the specification: a LONG trade entered at 50000 with fixed-point
  targets 300, 500, 800 and 1000 above the entry, the stop-loss to be moved to the entry
  once the first target is reached.
\<close>

definition example_trade :: trade where
  "example_trade =
     \<lparr>t_id = Some ''1700000000'', t_symbol = Some ''B-BTC_USDT'', t_side = Some ''LONG'',
      t_qty = Some (4 / 1000), t_entry_price = Some 50000, t_sl_order_id = Some ''sl-1'',
      t_tp_order_ids = Some [''tp-1'', ''tp-2'', ''tp-3'', ''tp-4''],
      t_targets = Some [50300, 50500, 50800, 51000],
      t_monitor_trigger_level = Some 1, t_sl_moved = Some False\<rparr>"

text \<open>An iteration that sees the given price; the exchange accepts the edit.\<close>

definition tick_edit_accepted :: "real \<Rightarrow> tick" where
  "tick_edit_accepted p =
     \<lparr>latest_close = Some p, edit_answer = Some (Some 200), place_answer = None\<rparr>"

text \<open>An iteration that sees the given price; the exchange refuses the edit and the
  replacement order.\<close>

definition tick_all_refused :: "real \<Rightarrow> tick" where
  "tick_all_refused p = \<lparr>latest_close = Some p, edit_answer = None, place_answer = None\<rparr>"

text \<open>
  A run of \<^verbatim>\<open>main\<close>: credentials present, a LONG trade of 0.005 given on the command line,
  the previous candle ranging from 50000 to 50100, the latest close at 50000, every order
  accepted, and two monitoring iterations that see the price at and above the first
  target.
\<close>

definition example_config :: config where
  "example_config =
     \<lparr>cfg_leverage = 10, cfg_sl_candle_multiplier = 2,
      cfg_tp_fixed_points = [300, 500, 800, 1000],
      cfg_move_sl_to_entry_when_tp_hit = 1,
      cfg_position_size_type = ''FIXED'', cfg_position_size_value = 1 / 1000\<rparr>"

definition example_world :: world where
  "example_world =
     \<lparr>env_api_key = Some ''key'', env_api_secret = Some ''secret'',
      args_side = ''LONG'', args_size = Some (5 / 1000),
      w_config = example_config, w_trades_json = Absent,
      w_klines = [\<lparr>c_high = 50100, c_low = 50000, c_close = 50080\<rparr>,
                  \<lparr>c_high = 50090, c_low = 49990, c_close = 50000\<rparr>],
      w_balance = 1000, w_confirm = ''yes'',
      w_entry_answer = Some (Some ''entry-1''), w_sl_answer = Some (Some ''sl-1''),
      w_tp_answer = (\<lambda>i. Some (Some ''tp'')),
      w_clock = ''1700000000'',
      w_ticks = [tick_edit_accepted 50300, tick_edit_accepted 50500]\<rparr>"

section \<open>Risk-multiple targets\<close>

lemma upper_LONG: "upper ''LONG'' = ''LONG''"
  by code_simp

lemma upper_SHORT: "upper ''SHORT'' = ''SHORT''"
  by code_simp




section \<open>The trade store\<close>

lemma update_first_absent:
  "\<forall>t \<in> set ts. t_id t \<noteq> trade_id \<Longrightarrow> update_first trade_id kv ts = None"
  by (induction ts) auto

lemma filter_absent:
  "\<forall>t \<in> set ts. t_id t \<noteq> trade_id \<Longrightarrow> filter (\<lambda>t. t_id t \<noteq> trade_id) ts = ts"
  by (induction ts) auto

text \<open>
  Claim C9. When no stored trade has the given id, \<open>update_trade\<close> leaves the file as it
  is, whatever the key and the value, and \<open>delete_trade\<close> leaves the stored collection
  as it is (it rewrites the file with the same list). Neither function has a failing
  branch.
\<close>

theorem update_delete_absent_id_noop:
  "\<forall>t \<in> set (load_trades f). t_id t \<noteq> trade_id \<Longrightarrow>
     update_trade trade_id kv f = f \<and>
     load_trades (delete_trade trade_id f) = load_trades f \<and>
     (f = Stored ts \<longrightarrow> delete_trade trade_id f = f)"
  by (auto simp: update_trade_def delete_trade_def save_trades_def update_first_absent
      filter_absent Let_def)

theorem update_delete_absent_id_noop_witness:
  "update_trade (Some ''42'') (Set_sl_moved (Some True)) (Stored [example_trade])
     = Stored [example_trade] \<and>
   delete_trade (Some ''42'') (Stored [example_trade]) = Stored [example_trade]"
  using update_delete_absent_id_noop
    [of "Stored [example_trade]" "Some ''42''" "Set_sl_moved (Some True)" "[example_trade]"]
  by (simp add: example_trade_def)

section \<open>The monitor\<close>

text \<open>
  Claim C10. A trade whose stop-loss order id is missing, null or empty is not
  monitored: \<open>monitor_trade\<close> makes no call at all (no price is fetched, no order is
  touched) and leaves the file of trades as it is, whatever the trigger level, the
  targets and the prices that would have been observed; with a symbol in the record it
  returns at the check of the id.
\<close>

theorem monitor_without_sl_order_id:
  "\<not> truthy (t_sl_order_id trade) \<Longrightarrow>
     trace (monitor_trade trade tks f) = [] \<and>
     stored (monitor_trade trade tks f) = f \<and>
     (t_symbol trade = Some symbol \<longrightarrow>
        monitor_trade trade tks f = \<lparr>ending = No_SL_order_id, stored = f, trace = []\<rparr>)"
  by (auto simp: monitor_trade_def split: option.splits)

theorem monitor_without_sl_order_id_witness:
  "monitor_trade (example_trade\<lparr>t_sl_order_id := None\<rparr>)
     [tick_edit_accepted 50300, tick_edit_accepted 50500] (Stored [example_trade])
   = \<lparr>ending = No_SL_order_id, stored = Stored [example_trade], trace = []\<rparr>"
  using monitor_without_sl_order_id
    [of "example_trade\<lparr>t_sl_order_id := None\<rparr>"
        "[tick_edit_accepted 50300, tick_edit_accepted 50500]" "Stored [example_trade]"
        "''B-BTC_USDT''"]
  by (simp add: example_trade_def)

subsection \<open>The migration to breakeven\<close>

lemma monitor_step_eq:
  "monitor_step trade symbol tk s =
     (let s1 = record_event (Get_klines symbol ''1m'' 1) s in
      case latest_close tk of None \<Rightarrow> s1
      | Some p \<Rightarrow> if \<not> m_sl_moved s \<and> trigger_observed trade p then move_sl trade symbol tk s1 else s1)"
  by (auto simp: monitor_step_def trigger_observed_def record_event_def Let_def split: option.splits)

lemma step_moved:
  "m_sl_moved s \<Longrightarrow> monitor_step trade symbol tk s = record_event (Get_klines symbol ''1m'' 1) s"
  by (simp add: monitor_step_eq Let_def split: option.splits)

lemma loop_moved:
  "m_sl_moved s \<Longrightarrow>
     m_sl_moved (monitor_loop trade symbol tks s) \<and>
     m_sl_order_id (monitor_loop trade symbol tks s) = m_sl_order_id s \<and>
     m_file (monitor_loop trade symbol tks s) = m_file s \<and>
     m_trace (monitor_loop trade symbol tks s) =
       m_trace s @ replicate (length tks) (Get_klines symbol ''1m'' 1)"
proof (induction tks arbitrary: s)
  case Nil
  then show ?case by simp
next
  case (Cons tk tks)
  let ?s = "record_event (Get_klines symbol ''1m'' 1) s"
  have m: "m_sl_moved ?s" using Cons.prems by (simp add: record_event_def)
  show ?case
    using Cons.IH [OF m] Cons.prems
    by (simp add: step_moved record_event_def replicate_append_same)
qed

text \<open>What one attempt to move the stop-loss adds to the trace.\<close>

lemma move_sl_cases:
  "\<exists>es. m_trace (move_sl trade symbol tk s) = m_trace s @ es \<and>
        (if m_sl_moved (move_sl trade symbol tk s) then length (filter migrated es) = 1
         else filter migrated es = [] \<and> m_sl_moved (move_sl trade symbol tk s) = m_sl_moved s
              \<and> m_file (move_sl trade symbol tk s) = m_file s
              \<and> m_sl_order_id (move_sl trade symbol tk s) = m_sl_order_id s)"
  if "\<not> m_sl_moved s"
  using that by (auto simp: move_sl_def record_event_def Let_def split: option.splits)

lemma step_cases:
  assumes "\<not> m_sl_moved s"
  shows "\<exists>es. m_trace (monitor_step trade symbol tk s) = m_trace s @ es \<and>
        (if m_sl_moved (monitor_step trade symbol tk s) then length (filter migrated es) = 1
         else filter migrated es = [])"
proof -
  let ?s1 = "record_event (Get_klines symbol ''1m'' 1) s"
  have s1: "\<not> m_sl_moved ?s1" "m_trace ?s1 = m_trace s @ [Get_klines symbol ''1m'' 1]"
    using assms by (simp_all add: record_event_def)
  from move_sl_cases [OF s1(1), of trade symbol tk]
  obtain es where es: "m_trace (move_sl trade symbol tk ?s1) = m_trace ?s1 @ es"
    "if m_sl_moved (move_sl trade symbol tk ?s1) then length (filter migrated es) = 1
         else filter migrated es = []"
    by (auto split: if_splits)
  show ?thesis
  proof (cases "\<exists>p. latest_close tk = Some p \<and> trigger_observed trade p")
    case True
    then have "monitor_step trade symbol tk s = move_sl trade symbol tk ?s1"
      using assms by (auto simp: monitor_step_eq Let_def)
    then show ?thesis using es s1
      by (intro exI [of _ "Get_klines symbol ''1m'' 1 # es"]) (auto split: if_splits)
  next
    case False
    then have "monitor_step trade symbol tk s = ?s1"
      using assms by (auto simp: monitor_step_eq Let_def split: option.splits)
    then show ?thesis using s1 by simp
  qed
qed

lemma loop_migrations:
  "\<exists>es. m_trace (monitor_loop trade symbol tks s) = m_trace s @ es \<and>
        length (filter migrated es) \<le> (if m_sl_moved s then 0 else 1) \<and>
        (m_sl_moved s \<longrightarrow> filter is_order_call es = [])"
proof (induction tks arbitrary: s)
  case Nil
  then show ?case by simp
next
  case (Cons tk tks)
  show ?case
  proof (cases "m_sl_moved s")
    case True
    from loop_moved [OF True, of trade symbol "tk # tks"] True show ?thesis
      by (intro exI [of _ "replicate (length (tk # tks)) (Get_klines symbol ''1m'' 1)"]) simp
  next
    case False
    let ?s' = "monitor_step trade symbol tk s"
    from step_cases [OF False, of trade symbol tk]
    obtain es where es: "m_trace ?s' = m_trace s @ es"
      "if m_sl_moved ?s' then length (filter migrated es) = 1 else filter migrated es = []"
      by blast
    from Cons.IH [of ?s']
    obtain es' where es': "m_trace (monitor_loop trade symbol tks ?s') = m_trace ?s' @ es'"
      "length (filter migrated es') \<le> (if m_sl_moved ?s' then 0 else 1)"
      by blast
    show ?thesis using False es es'
      by (intro exI [of _ "es @ es'"]) (auto split: if_splits)
  qed
qed

lemma monitor_trade_migrations:
  "length (filter migrated (trace (monitor_trade trade tks f))) \<le> 1"
proof -
  have "length (filter migrated (m_trace (monitor_loop trade symbol tks (monitor_start trade i f)))) \<le> 1"
    for symbol i
    using loop_migrations [of trade symbol tks "monitor_start trade i f"]
    by (auto simp: monitor_start_def split: if_splits)
  then show ?thesis
    by (auto simp: monitor_trade_def Let_def split: option.splits)
qed

text \<open>The persisted flags are only ever set.\<close>


lemma kept_refl: "list_all2 flag_kept xs xs"
  by (simp add: list_all2_refl flag_kept_def)

lemma kept_trans: "list_all2 flag_kept xs ys \<Longrightarrow> list_all2 flag_kept ys zs \<Longrightarrow> list_all2 flag_kept xs zs"
  by (auto simp: list_all2_conv_all_nth flag_kept_def)

lemma update_first_flag:
  "update_first tid (Set_sl_moved (Some True)) ts = Some ts' \<Longrightarrow>
     list_all2 flag_kept (map t_sl_moved ts) (map t_sl_moved ts')"
  by (induction ts arbitrary: ts') (auto simp: kept_refl flag_kept_def split: if_splits)

lemma update_first_order_id:
  "update_first tid (Set_sl_order_id v) ts = Some ts' \<Longrightarrow> map t_sl_moved ts' = map t_sl_moved ts"
  by (induction ts arbitrary: ts') (auto split: if_splits)

lemma update_trade_flag:
  "list_all2 flag_kept (persisted_flags f) (persisted_flags (update_trade tid (Set_sl_moved (Some True)) f))"
  by (auto simp: update_trade_def persisted_flags_def save_trades_def kept_refl
      dest: update_first_flag split: option.splits)

lemma update_trade_order_id:
  "persisted_flags (update_trade tid (Set_sl_order_id v) f) = persisted_flags f"
  by (auto simp: update_trade_def persisted_flags_def save_trades_def
      dest: update_first_order_id split: option.splits)

lemma move_sl_flags:
  "list_all2 flag_kept (persisted_flags (m_file s)) (persisted_flags (m_file (move_sl trade symbol tk s)))"
  using update_trade_flag [of "m_file s" "t_id trade"]
    update_trade_flag [of "update_trade (t_id trade) (Set_sl_order_id v) (m_file s)" "t_id trade" for v]
  by (auto simp: move_sl_def record_event_def Let_def kept_refl update_trade_order_id
      split: option.splits)

lemma step_flags:
  "list_all2 flag_kept (persisted_flags (m_file s)) (persisted_flags (m_file (monitor_step trade symbol tk s)))"
  using move_sl_flags [of "record_event (Get_klines symbol ''1m'' 1) s" trade symbol tk]
  by (auto simp: monitor_step_eq Let_def record_event_def kept_refl split: option.splits)

lemma loop_flags:
  "list_all2 flag_kept (persisted_flags (m_file s)) (persisted_flags (m_file (monitor_loop trade symbol tks s)))"
proof (induction tks arbitrary: s)
  case Nil
  show ?case by (simp add: kept_refl)
next
  case (Cons tk tks)
  show ?case
    using kept_trans [OF step_flags [of s trade symbol tk] Cons.IH [of "monitor_step trade symbol tk s"]]
    by simp
qed

text \<open>
  Claim C1. The breakeven migration fires at most once. In every run of the monitor the
  trace holds at most one successful migration action. From any state of the loop on,
  over any further iterations, whatever prices and answers they see: the trace only
  grows, by at most one successful migration action, and by none, and by no edit, cancel
  or order call at all, when the flag is already set; a flag that is set stays set and
  the file is not written again; and a persisted flag that is true stays true.
\<close>

theorem breakeven_migration_at_most_once:
  "length (filter migrated (trace (monitor_trade trade tks f))) \<le> 1 \<and>
   (\<exists>es. m_trace (monitor_loop trade symbol tks s) = m_trace s @ es \<and>
         length (filter migrated es) \<le> (if m_sl_moved s then 0 else 1) \<and>
         (m_sl_moved s \<longrightarrow> filter is_order_call es = [])) \<and>
   (m_sl_moved s \<longrightarrow>
      m_sl_moved (monitor_loop trade symbol tks s) \<and>
      m_file (monitor_loop trade symbol tks s) = m_file s) \<and>
   list_all2 flag_kept (persisted_flags (m_file s))
     (persisted_flags (m_file (monitor_loop trade symbol tks s)))"
  using monitor_trade_migrations [of trade tks f] loop_migrations [of trade symbol tks s]
    loop_moved [of s trade symbol tks] loop_flags [of s trade symbol tks]
  by blast

theorem breakeven_migration_at_most_once_witness:
  "m_sl_moved (monitor_step example_trade ''B-BTC_USDT'' (tick_edit_accepted 50300)
          (monitor_start example_trade ''sl-1'' (Stored [example_trade]))) \<and>
   monitor_trade example_trade [tick_edit_accepted 50300, tick_edit_accepted 50500]
       (Stored [example_trade])
   = \<lparr>ending = Interrupted, stored = Stored [example_trade\<lparr>t_sl_moved := Some True\<rparr>],
      trace = [Get_klines ''B-BTC_USDT'' ''1m'' 1,
               Edit_order ''sl-1'' (Some 50000) (Some (Some 200)),
               Get_klines ''B-BTC_USDT'' ''1m'' 1]\<rparr>"
  using breakeven_migration_at_most_once
    [of example_trade "[tick_edit_accepted 50300, tick_edit_accepted 50500]"
        "Stored [example_trade]" "''B-BTC_USDT''"
        "monitor_step example_trade ''B-BTC_USDT'' (tick_edit_accepted 50300)
          (monitor_start example_trade ''sl-1'' (Stored [example_trade]))"]
  by (simp add: monitor_trade_def monitor_step_def move_sl_def monitor_start_def example_trade_def
        tick_edit_accepted_def record_event_def hit_def edit_ok_def update_trade_def
        save_trades_def Let_def)

text \<open>
  Claim C4. In an iteration that observes the trigger while the flag is unset, if the
  exchange refuses the edit and returns no id for the replacement order, then the flag
  stays unset, the file of trades is not written, the stop-loss order id is unchanged,
  and the calls made are the price fetch, the edit, the cancel and the replacement order.
  The next iteration that observes the trigger attempts the migration again, starting
  with the edit of the same order to the entry price, and sets the flag if that edit is
  accepted.
\<close>

theorem failed_migration_is_retried:
  assumes "\<not> m_sl_moved s" and "latest_close tk = Some p" and "trigger_observed trade p"
    and "\<not> edit_ok (edit_answer tk)" and "reply_id (place_answer tk) = None"
  shows "(let s' = monitor_step trade symbol tk s in
     \<not> m_sl_moved s' \<and> m_file s' = m_file s \<and> m_sl_order_id s' = m_sl_order_id s \<and>
     m_trace s' = m_trace s @
       [Get_klines symbol ''1m'' 1,
        Edit_order (m_sl_order_id s) (t_entry_price trade) (edit_answer tk),
        Cancel_order (m_sl_order_id s),
        Place_order \<lparr>o_symbol = symbol,
                      o_side = (if t_side trade = Some ''LONG'' then ''sell'' else ''buy''),
                      o_qty = t_qty trade, o_type = ''STOP_MARKET'', o_price = None,
                      o_stop_price = t_entry_price trade\<rparr> (place_answer tk)] \<and>
     (\<forall>tk' p'. latest_close tk' = Some p' \<and> trigger_observed trade p' \<longrightarrow>
        (\<exists>es. m_trace (monitor_step trade symbol tk' s') = m_trace s' @
                Get_klines symbol ''1m'' 1 #
                Edit_order (m_sl_order_id s) (t_entry_price trade) (edit_answer tk') # es) \<and>
        (edit_ok (edit_answer tk') \<longrightarrow> m_sl_moved (monitor_step trade symbol tk' s'))))"
  using assms
  by (auto simp: monitor_step_eq move_sl_def record_event_def Let_def split: option.splits)

theorem failed_migration_is_retried_witness:
  "trigger_observed example_trade 50300 \<and>
   monitor_step example_trade ''B-BTC_USDT'' (tick_all_refused 50300)
     (monitor_start example_trade ''sl-1'' (Stored [example_trade]))
   = \<lparr>m_sl_order_id = ''sl-1'', m_sl_moved = False, m_file = Stored [example_trade],
      m_trace = [Get_klines ''B-BTC_USDT'' ''1m'' 1,
                 Edit_order ''sl-1'' (Some 50000) None,
                 Cancel_order ''sl-1'',
                 Place_order \<lparr>o_symbol = ''B-BTC_USDT'', o_side = ''sell'',
                               o_qty = Some (4 / 1000), o_type = ''STOP_MARKET'',
                               o_price = None, o_stop_price = Some 50000\<rparr> None]\<rparr> \<and>
   m_sl_moved (monitor_loop example_trade ''B-BTC_USDT''
     [tick_all_refused 50300, tick_edit_accepted 50400]
     (monitor_start example_trade ''sl-1'' (Stored [example_trade])))"
  using failed_migration_is_retried
    [of "monitor_start example_trade ''sl-1'' (Stored [example_trade])"
        "tick_all_refused 50300" 50300 example_trade "''B-BTC_USDT''"]
  by (simp add: monitor_step_def move_sl_def monitor_start_def example_trade_def
        tick_edit_accepted_def tick_all_refused_def record_event_def hit_def edit_ok_def
        trigger_observed_def update_trade_def save_trades_def Let_def)

section \<open>Observations on the calls of the monitor and of the entry flow\<close>

lemma upper_RESUME: "upper ''RESUME'' = ''RESUME''" by code_simp

lemma move_sl_calls:
  "list_all (monitor_call trade) (m_trace s) \<Longrightarrow>
     list_all (monitor_call trade) (m_trace (move_sl trade symbol tk s))"
  by (auto simp: move_sl_def record_event_def Let_def split: option.splits)

lemma step_calls:
  "list_all (monitor_call trade) (m_trace s) \<Longrightarrow>
     list_all (monitor_call trade) (m_trace (monitor_step trade symbol tk s))"
  using move_sl_calls [of trade "record_event (Get_klines symbol ''1m'' 1) s" symbol tk]
  by (auto simp: monitor_step_eq record_event_def Let_def split: option.splits)

lemma loop_calls:
  "list_all (monitor_call trade) (m_trace s) \<Longrightarrow>
     list_all (monitor_call trade) (m_trace (monitor_loop trade symbol tks s))"
  by (induction tks arbitrary: s) (auto intro: step_calls)

lemma monitor_trade_calls:
  "list_all (monitor_call trade) (trace (monitor_trade trade tks f))"
  using loop_calls [of trade "monitor_start trade i f" symbol tks for i symbol]
  by (auto simp: monitor_trade_def monitor_start_def Let_def split: option.splits)

lemma monitor_trade_no_ticks: "trace (monitor_trade trade [] f) = []"
  by (auto simp: monitor_trade_def monitor_start_def Let_def split: option.splits)

lemma upper_long: "upper ''long'' = ''LONG''" by code_simp
lemma upper_short: "upper ''short'' = ''SHORT''" by code_simp

lemma entry_confirmed_append:
  "entry_confirmed (xs @ ys) =
     (case entry_confirmed xs of None \<Rightarrow> entry_confirmed ys | Some q \<Rightarrow> Some q)"
  by (induction xs rule: entry_confirmed.induct) auto

lemma orders_of_type_append:
  "orders_of_type ty (xs @ ys) = orders_of_type ty xs @ orders_of_type ty ys"
  by (induction ty xs rule: orders_of_type.induct) auto

lemma displayed_plan_append:
  "displayed_plan (xs @ ys) =
     (case displayed_plan xs of None \<Rightarrow> displayed_plan ys | Some q \<Rightarrow> Some q)"
  by (induction xs rule: displayed_plan.induct) auto

lemma place_take_profits_trace:
  "fst (place_take_profits symbol sl_side chunk_qty answer i targets) =
     map (\<lambda>(j, t). Place_order \<lparr>o_symbol = symbol, o_side = sl_side, o_qty = Some chunk_qty,
                            o_type = ''LIMIT'', o_price = Some t, o_stop_price = None\<rparr> (answer j))
       (enumerate i targets)"
  by (induction targets arbitrary: i) (simp_all add: Let_def case_prod_beta)

text \<open>What the take-profit orders add to the observations.\<close>

lemma tp_observed:
  "entry_confirmed (fst (place_take_profits symbol sl_side chunk_qty answer i targets)) = None"
  "displayed_plan (fst (place_take_profits symbol sl_side chunk_qty answer i targets)) = None"
  "orders_of_type ''MARKET'' (fst (place_take_profits symbol sl_side chunk_qty answer i targets)) = []"
  "orders_of_type ''STOP_MARKET'' (fst (place_take_profits symbol sl_side chunk_qty answer i targets)) = []"
  "orders_of_type ''LIMIT'' (fst (place_take_profits symbol sl_side chunk_qty answer i targets)) =
     map (\<lambda>t. \<lparr>o_symbol = symbol, o_side = sl_side, o_qty = Some chunk_qty,
                            o_type = ''LIMIT'', o_price = Some t, o_stop_price = None\<rparr>) targets"
  by (induction targets arbitrary: i; simp add: Let_def case_prod_beta)+

text \<open>What the calls of the monitor add to the observations.\<close>

lemma monitor_calls_observed:
  assumes "list_all (monitor_call trade) tr"
  shows "entry_confirmed tr = None" "displayed_plan tr = None"
    "orders_of_type ''MARKET'' tr = []" "orders_of_type ''LIMIT'' tr = []"
    "\<forall>r \<in> set (orders_of_type ''STOP_MARKET'' tr).
        o_qty r = t_qty trade \<and> o_stop_price r = t_entry_price trade"
  using assms
  by (induction tr rule: entry_confirmed.induct; simp)+

section \<open>The entry flow\<close>

lemma side_cases:
  "args_side w \<in> set [''LONG'', ''SHORT'', ''long'', ''short'', ''RESUME''] \<Longrightarrow>
   upper (args_side w) \<noteq> ''RESUME'' \<Longrightarrow>
   upper (args_side w) = ''LONG'' \<or> upper (args_side w) = ''SHORT''"
  by (auto simp: upper_LONG upper_SHORT upper_long upper_short upper_RESUME)

lemma resume_not_confirmed: "entry_confirmed (trace (resume w)) = None"
  using monitor_calls_observed(1) [OF monitor_trade_calls]
  by (simp add: resume_def finish_def Let_def)

lemma execute_failed:
  "reply_id (w_entry_answer w) = None \<Longrightarrow>
     entry_confirmed tr = None \<Longrightarrow>
     entry_confirmed (trace (execute w side symbol qty p prev tr)) = None"
  by (simp add: execute_def Let_def finish_def entry_confirmed_append)

lemma execute_trace:
  assumes "reply_id (w_entry_answer w) \<noteq> None"
  shows "\<exists>td. trace (execute w side symbol qty p prev tr) =
     tr @ [Place_order \<lparr>o_symbol = symbol, o_side = (if side = ''LONG'' then ''buy'' else ''sell''),
                        o_qty = Some qty, o_type = ''MARKET'', o_price = None,
                        o_stop_price = None\<rparr> (w_entry_answer w),
           Place_order \<lparr>o_symbol = symbol, o_side = (if side = ''LONG'' then ''sell'' else ''buy''),
                        o_qty = Some qty, o_type = ''STOP_MARKET'', o_price = None,
                        o_stop_price = Some (get_candle_based_stop_loss p side (c_high prev)
                           (c_low prev) (cfg_sl_candle_multiplier (w_config w)))\<rparr>
             (w_sl_answer w)]
        @ fst (place_take_profits symbol (if side = ''LONG'' then ''sell'' else ''buy'')
                 (fmt3 (qty / 4)) (w_tp_answer w) 0
                 (calculate_fixed_point_targets p side (cfg_tp_fixed_points (w_config w))))
        @ trace (monitor_trade td (w_ticks w) (add_trade td (w_trades_json w))) \<and>
     t_entry_price td = Some p \<and> t_qty td = Some qty \<and>
     stored (execute w side symbol qty p prev tr) =
       stored (monitor_trade td (w_ticks w) (add_trade td (w_trades_json w)))"
  using assms
  by (auto simp: execute_def Let_def case_prod_beta split: option.splits)

lemma new_trade_confirmed:
  assumes "entry_confirmed (trace (new_trade w side)) = Some r"
  shows "\<exists>q0.
     position_qty \<lparr>rm_risk_type = fst (sizing_policy w), rm_risk_value = snd (sizing_policy w),
                    rm_sl_multiplier = cfg_sl_candle_multiplier (w_config w)\<rparr>
       (fst (sizing_policy w)) (snd (sizing_policy w)) (w_balance w)
       (c_close (last (w_klines w))) (cfg_leverage (w_config w)) = Inr q0 \<and>
     0 < round_to_step q0 \<and> reply_id (w_entry_answer w) \<noteq> None \<and>
     new_trade w side =
       execute w side ''B-BTC_USDT'' (round_to_step q0) (c_close (last (w_klines w)))
         (w_klines w ! (length (w_klines w) - 2))
         [Set_leverage ''B-BTC_USDT'' (cfg_leverage (w_config w)),
          Get_klines ''B-BTC_USDT'' ''15m'' 5, Get_balance ''USDT'',
          Plan_displayed side (round_to_step q0) (c_close (last (w_klines w)))
            (get_candle_based_stop_loss (c_close (last (w_klines w))) side
               (c_high (w_klines w ! (length (w_klines w) - 2)))
               (c_low (w_klines w ! (length (w_klines w) - 2)))
               (cfg_sl_candle_multiplier (w_config w)))
            (calculate_fixed_point_targets (c_close (last (w_klines w))) side
               (cfg_tp_fixed_points (w_config w)))]"
proof (cases "reply_id (w_entry_answer w)")
  case None
  then show ?thesis
    using assms
    by (auto simp: new_trade_def Let_def case_prod_beta finish_def execute_failed
        split: if_splits sum.splits)
next
  case (Some i)
  then show ?thesis
    using assms
    by (auto simp: new_trade_def Let_def case_prod_beta finish_def
        split: if_splits sum.splits)
qed

lemma main_confirmed:
  assumes "entry_confirmed (trace (main w)) = Some r"
  shows "(upper (args_side w) = ''LONG'' \<or> upper (args_side w) = ''SHORT'') \<and>
         main w = new_trade w (upper (args_side w))"
proof -
  have a: "args_side w \<in> set [''LONG'', ''SHORT'', ''long'', ''short'', ''RESUME'']"
    and k: "truthy (env_api_key w)" "truthy (env_api_secret w)"
    and r: "upper (args_side w) \<noteq> ''RESUME''"
    using assms
    by (auto simp: main_def finish_def Let_def resume_not_confirmed split: if_splits)
  from side_cases [OF a r] a k r show ?thesis
    by (simp add: main_def Let_def)
qed

text \<open>The trace of a run whose entry order was confirmed.\<close>

lemma confirmed_run:
  assumes "entry_confirmed (trace (main w)) = Some r"
  defines "side \<equiv> upper (args_side w)"
    and "p \<equiv> c_close (last (w_klines w))"
    and "prev \<equiv> w_klines w ! (length (w_klines w) - 2)"
  defines "sl \<equiv> get_candle_based_stop_loss p side (c_high prev) (c_low prev)
            (cfg_sl_candle_multiplier (w_config w))"
    and "targets \<equiv> calculate_fixed_point_targets p side (cfg_tp_fixed_points (w_config w))"
  shows "\<exists>q td.
     (side = ''LONG'' \<or> side = ''SHORT'') \<and> 0 < q \<and>
     trace (main w) =
       [Set_leverage ''B-BTC_USDT'' (cfg_leverage (w_config w)),
        Get_klines ''B-BTC_USDT'' ''15m'' 5, Get_balance ''USDT'',
        Plan_displayed side q p sl targets,
        Place_order \<lparr>o_symbol = ''B-BTC_USDT'',
                      o_side = (if side = ''LONG'' then ''buy'' else ''sell''),
                      o_qty = Some q, o_type = ''MARKET'', o_price = None,
                      o_stop_price = None\<rparr> (w_entry_answer w),
        Place_order \<lparr>o_symbol = ''B-BTC_USDT'',
                      o_side = (if side = ''LONG'' then ''sell'' else ''buy''),
                      o_qty = Some q, o_type = ''STOP_MARKET'', o_price = None,
                      o_stop_price = Some sl\<rparr> (w_sl_answer w)]
       @ fst (place_take_profits ''B-BTC_USDT'' (if side = ''LONG'' then ''sell'' else ''buy'')
                (fmt3 (q / 4)) (w_tp_answer w) 0 targets)
       @ trace (monitor_trade td (w_ticks w) (add_trade td (w_trades_json w))) \<and>
     t_entry_price td = Some p \<and> t_qty td = Some q \<and>
     stored (main w) = stored (monitor_trade td (w_ticks w) (add_trade td (w_trades_json w))) \<and>
     r = \<lparr>o_symbol = ''B-BTC_USDT'',
          o_side = (if side = ''LONG'' then ''buy'' else ''sell''),
          o_qty = Some q, o_type = ''MARKET'', o_price = None, o_stop_price = None\<rparr>"
proof -
  from main_confirmed [OF assms(1)]
  have sd: "side = ''LONG'' \<or> side = ''SHORT''"
    and m: "main w = new_trade w side"
    by (simp_all add: side_def)
  from assms(1) m have "entry_confirmed (trace (new_trade w side)) = Some r"
    by simp
  from new_trade_confirmed [OF this] obtain q0 where
    q: "0 < round_to_step q0" and a: "reply_id (w_entry_answer w) \<noteq> None"
    and n: "new_trade w side =
       execute w side ''B-BTC_USDT'' (round_to_step q0) p prev
         [Set_leverage ''B-BTC_USDT'' (cfg_leverage (w_config w)),
          Get_klines ''B-BTC_USDT'' ''15m'' 5, Get_balance ''USDT'',
          Plan_displayed side (round_to_step q0) p sl targets]"
    unfolding p_def prev_def sl_def targets_def by blast
  from execute_trace [OF a, of side "''B-BTC_USDT''" "round_to_step q0" p prev
      "[Set_leverage ''B-BTC_USDT'' (cfg_leverage (w_config w)),
          Get_klines ''B-BTC_USDT'' ''15m'' 5, Get_balance ''USDT'',
          Plan_displayed side (round_to_step q0) p sl targets]"]
  obtain td where td: "trace (new_trade w side) =
       [Set_leverage ''B-BTC_USDT'' (cfg_leverage (w_config w)),
        Get_klines ''B-BTC_USDT'' ''15m'' 5, Get_balance ''USDT'',
        Plan_displayed side (round_to_step q0) p sl targets,
        Place_order \<lparr>o_symbol = ''B-BTC_USDT'',
                      o_side = (if side = ''LONG'' then ''buy'' else ''sell''),
                      o_qty = Some (round_to_step q0), o_type = ''MARKET'', o_price = None,
                      o_stop_price = None\<rparr> (w_entry_answer w),
        Place_order \<lparr>o_symbol = ''B-BTC_USDT'',
                      o_side = (if side = ''LONG'' then ''sell'' else ''buy''),
                      o_qty = Some (round_to_step q0), o_type = ''STOP_MARKET'', o_price = None,
                      o_stop_price = Some sl\<rparr> (w_sl_answer w)]
       @ fst (place_take_profits ''B-BTC_USDT'' (if side = ''LONG'' then ''sell'' else ''buy'')
                (fmt3 (round_to_step q0 / 4)) (w_tp_answer w) 0 targets)
       @ trace (monitor_trade td (w_ticks w) (add_trade td (w_trades_json w)))"
     "t_entry_price td = Some p" "t_qty td = Some (round_to_step q0)"
     "stored (new_trade w side) = stored (monitor_trade td (w_ticks w) (add_trade td (w_trades_json w)))"
    unfolding n sl_def targets_def by auto
  from assms(1) a have r: "r = \<lparr>o_symbol = ''B-BTC_USDT'',
          o_side = (if side = ''LONG'' then ''buy'' else ''sell''),
          o_qty = Some (round_to_step q0), o_type = ''MARKET'', o_price = None,
          o_stop_price = None\<rparr>"
    unfolding m td(1) by simp
  show ?thesis
    apply (rule exI [of _ "round_to_step q0"])
    apply (rule exI [of _ td])
    using sd q td r unfolding m by simp
qed








text \<open>The monitor leaves the recorded entry prices alone.\<close>

lemma update_first_entry_price:
  "update_first tid kv ts = Some ts' \<Longrightarrow> kv = Set_sl_moved v \<or> kv = Set_sl_order_id i \<Longrightarrow>
     map t_entry_price ts' = map t_entry_price ts"
  by (induction ts arbitrary: ts') (auto split: if_splits)

lemma update_trade_entry_price:
  "kv = Set_sl_moved v \<or> kv = Set_sl_order_id i \<Longrightarrow>
     map t_entry_price (load_trades (update_trade tid kv f)) = map t_entry_price (load_trades f)"
  by (auto simp: update_trade_def save_trades_def dest: update_first_entry_price
      split: option.splits)

lemma move_sl_entry_price:
  "map t_entry_price (load_trades (m_file (move_sl trade symbol tk s))) =
     map t_entry_price (load_trades (m_file s))"
  by (auto simp: move_sl_def record_event_def Let_def update_trade_entry_price
      split: option.splits)

lemma step_entry_price:
  "map t_entry_price (load_trades (m_file (monitor_step trade symbol tk s))) =
     map t_entry_price (load_trades (m_file s))"
  by (auto simp: monitor_step_eq Let_def move_sl_entry_price record_event_def
      split: option.splits)

lemma loop_entry_price:
  "map t_entry_price (load_trades (m_file (monitor_loop trade symbol tks s))) =
     map t_entry_price (load_trades (m_file s))"
  by (induction tks arbitrary: s) (simp_all add: step_entry_price)

lemma monitor_trade_entry_price:
  "map t_entry_price (load_trades (stored (monitor_trade trade tks f))) =
     map t_entry_price (load_trades f)"
  by (auto simp: monitor_trade_def monitor_start_def Let_def loop_entry_price
      split: option.splits)

text \<open>What a confirmed run shows: plan, protective orders, sizes.\<close>

lemma confirmed_observations:
  assumes "entry_confirmed (trace (main w)) = Some r"
  defines "side \<equiv> upper (args_side w)"
    and "p \<equiv> c_close (last (w_klines w))"
    and "prev \<equiv> w_klines w ! (length (w_klines w) - 2)"
  defines "sl \<equiv> get_candle_based_stop_loss p side (c_high prev) (c_low prev)
            (cfg_sl_candle_multiplier (w_config w))"
    and "targets \<equiv> calculate_fixed_point_targets p side (cfg_tp_fixed_points (w_config w))"
  shows "\<exists>q. o_qty r = Some q \<and> 0 < q \<and>
     displayed_plan (trace (main w)) = Some (p, sl, targets) \<and>
     map o_stop_price (take 1 (orders_of_type ''STOP_MARKET'' (trace (main w)))) = [Some sl] \<and>
     map o_price (orders_of_type ''LIMIT'' (trace (main w))) = map Some targets \<and>
     map o_qty (orders_of_type ''LIMIT'' (trace (main w))) =
       replicate (length (cfg_tp_fixed_points (w_config w))) (Some (fmt3 (q / 4))) \<and>
     orders_of_type ''STOP_MARKET'' (trace (main w)) \<noteq> [] \<and>
     (\<forall>s \<in> set (orders_of_type ''STOP_MARKET'' (trace (main w))). o_qty s = Some q) \<and>
     last (map t_entry_price (load_trades (stored (main w)))) = Some p"
proof -
  from confirmed_run [OF assms(1)] obtain q td where
    q: "0 < q" and
    tr: "trace (main w) =
       [Set_leverage ''B-BTC_USDT'' (cfg_leverage (w_config w)),
        Get_klines ''B-BTC_USDT'' ''15m'' 5, Get_balance ''USDT'',
        Plan_displayed side q p sl targets,
        Place_order \<lparr>o_symbol = ''B-BTC_USDT'',
                      o_side = (if side = ''LONG'' then ''buy'' else ''sell''),
                      o_qty = Some q, o_type = ''MARKET'', o_price = None,
                      o_stop_price = None\<rparr> (w_entry_answer w),
        Place_order \<lparr>o_symbol = ''B-BTC_USDT'',
                      o_side = (if side = ''LONG'' then ''sell'' else ''buy''),
                      o_qty = Some q, o_type = ''STOP_MARKET'', o_price = None,
                      o_stop_price = Some sl\<rparr> (w_sl_answer w)]
       @ fst (place_take_profits ''B-BTC_USDT'' (if side = ''LONG'' then ''sell'' else ''buy'')
                (fmt3 (q / 4)) (w_tp_answer w) 0 targets)
       @ trace (monitor_trade td (w_ticks w) (add_trade td (w_trades_json w)))" and
    td: "t_entry_price td = Some p" "t_qty td = Some q" and
    st: "stored (main w) = stored (monitor_trade td (w_ticks w) (add_trade td (w_trades_json w)))" and
    r: "r = \<lparr>o_symbol = ''B-BTC_USDT'',
          o_side = (if side = ''LONG'' then ''buy'' else ''sell''),
          o_qty = Some q, o_type = ''MARKET'', o_price = None, o_stop_price = None\<rparr>"
    unfolding side_def p_def prev_def sl_def targets_def by blast
  note mon = monitor_calls_observed [OF monitor_trade_calls [of td "w_ticks w" "add_trade td (w_trades_json w)"]]
  have 1: "displayed_plan (trace (main w)) = Some (p, sl, targets)"
    unfolding tr by simp
  have 2: "orders_of_type ''STOP_MARKET'' (trace (main w)) =
      \<lparr>o_symbol = ''B-BTC_USDT'',
                      o_side = (if side = ''LONG'' then ''sell'' else ''buy''),
                      o_qty = Some q, o_type = ''STOP_MARKET'', o_price = None,
                      o_stop_price = Some sl\<rparr> #
      orders_of_type ''STOP_MARKET'' (trace (monitor_trade td (w_ticks w) (add_trade td (w_trades_json w))))"
    unfolding tr by (simp add: orders_of_type_append tp_observed)
  have 3: "orders_of_type ''LIMIT'' (trace (main w)) =
      map (\<lambda>t. \<lparr>o_symbol = ''B-BTC_USDT'', o_side = (if side = ''LONG'' then ''sell'' else ''buy''),
           o_qty = Some (fmt3 (q / 4)),
                            o_type = ''LIMIT'', o_price = Some t, o_stop_price = None\<rparr>) targets"
    unfolding tr by (simp add: orders_of_type_append tp_observed mon)
  have 4: "last (map t_entry_price (load_trades (stored (main w)))) = Some p"
    unfolding st monitor_trade_entry_price by (simp add: add_trade_def save_trades_def td)
  have 5: "length targets = length (cfg_tp_fixed_points (w_config w))"
    by (simp add: targets_def calculate_fixed_point_targets_def)
  have 6: "\<forall>s \<in> set (orders_of_type ''STOP_MARKET'' (trace (main w))). o_qty s = Some q"
    unfolding 2 using mon(5) td by simp
  show ?thesis
    apply (rule exI [of _ q])
    using q r 1 4 6 unfolding 2 3
    by (simp add: o_def map_replicate_const 5)
qed

section \<open>Evaluation of the example run\<close>

lemma upper_FIXED: "upper ''FIXED'' = ''FIXED''" by code_simp

lemmas run_defs =
  main_def new_trade_def execute_def resume_def finish_def sizing_policy_def position_qty_def
  calculate_qty_def py_div_def round_to_step_def fmt3_def py_round_def step_size_def
  get_candle_based_stop_loss_def calculate_fixed_point_targets_def
  monitor_trade_def monitor_start_def monitor_step_def move_sl_def record_event_def hit_def
  edit_ok_def update_trade_def save_trades_def add_trade_def
  example_world_def example_config_def example_trade_def tick_edit_accepted_def
  tick_all_refused_def upper_LONG upper_SHORT upper_FIXED upper_RESUME Let_def

lemma example_run:
  "main example_world =
   \<lparr>ending = Interrupted,
    stored = Stored
       [\<lparr>t_id = Some ''1700000000'', t_symbol = Some ''B-BTC_USDT'',
           t_side = Some ''LONG'', t_qty = Some (5 / 1000),
           t_entry_price = Some 50000, t_sl_order_id = Some ''sl-1'',
           t_tp_order_ids = Some [''tp'', ''tp'', ''tp'', ''tp''],
           t_targets = Some [50300, 50500, 50800, 51000],
           t_monitor_trigger_level = Some 1, t_sl_moved = Some True\<rparr>],
    trace =
      [Set_leverage ''B-BTC_USDT'' 10, Get_klines ''B-BTC_USDT'' ''15m'' 5,
       Get_balance ''USDT'',
       Plan_displayed ''LONG'' (5 / 1000) 50000 49800 [50300, 50500, 50800, 51000],
       Place_order
        \<lparr>o_symbol = ''B-BTC_USDT'', o_side = ''buy'', o_qty = Some (5 / 1000),
           o_type = ''MARKET'', o_price = None, o_stop_price = None\<rparr>
        (Some (Some ''entry-1'')),
       Place_order
        \<lparr>o_symbol = ''B-BTC_USDT'', o_side = ''sell'', o_qty = Some (5 / 1000),
           o_type = ''STOP_MARKET'', o_price = None, o_stop_price = Some 49800\<rparr>
        (Some (Some ''sl-1'')),
       Place_order
        \<lparr>o_symbol = ''B-BTC_USDT'', o_side = ''sell'', o_qty = Some (1 / 1000),
           o_type = ''LIMIT'', o_price = Some 50300, o_stop_price = None\<rparr>
        (Some (Some ''tp'')),
       Place_order
        \<lparr>o_symbol = ''B-BTC_USDT'', o_side = ''sell'', o_qty = Some (1 / 1000),
           o_type = ''LIMIT'', o_price = Some 50500, o_stop_price = None\<rparr>
        (Some (Some ''tp'')),
       Place_order
        \<lparr>o_symbol = ''B-BTC_USDT'', o_side = ''sell'', o_qty = Some (1 / 1000),
           o_type = ''LIMIT'', o_price = Some 50800, o_stop_price = None\<rparr>
        (Some (Some ''tp'')),
       Place_order
        \<lparr>o_symbol = ''B-BTC_USDT'', o_side = ''sell'', o_qty = Some (1 / 1000),
           o_type = ''LIMIT'', o_price = Some 51000, o_stop_price = None\<rparr>
        (Some (Some ''tp'')),
       Get_klines ''B-BTC_USDT'' ''1m'' 1,
       Edit_order ''sl-1'' (Some 50000) (Some (Some 200)),
       Get_klines ''B-BTC_USDT'' ''1m'' 1]\<rparr>"
  by (simp add: run_defs)

section \<open>Resume mode\<close>

text \<open>
  Claim C8. In resume mode, with credentials present: when no trade is stored, nothing
  is monitored and no call is made; when trades are stored, the run is exactly the
  monitoring of the last stored trade, so that every call of the run is a price fetch or
  a step of moving that trade's stop-loss to its entry price (no leverage, balance or
  entry call, no limit order), and no call is made before the first monitoring
  iteration. The last stored trade is the one added most recently, since \<open>add_trade\<close>
  appends.
\<close>

theorem resume_monitors_last_trade:
  assumes "args_side w = ''RESUME''" and "truthy (env_api_key w)" and "truthy (env_api_secret w)"
  shows "(load_trades (w_trades_json w) = [] \<longrightarrow>
            main w = \<lparr>ending = No_open_trades, stored = w_trades_json w, trace = []\<rparr>) \<and>
         (load_trades (w_trades_json w) \<noteq> [] \<longrightarrow>
            main w = monitor_trade (last (load_trades (w_trades_json w))) (w_ticks w)
                       (w_trades_json w) \<and>
            list_all (monitor_call (last (load_trades (w_trades_json w)))) (trace (main w))) \<and>
         (w_ticks w = [] \<longrightarrow> trace (main w) = []) \<and>
         last (load_trades (add_trade t f)) = t"
  using assms monitor_trade_calls [of "last (load_trades (w_trades_json w))" "w_ticks w" "w_trades_json w"]
  by (auto simp: main_def resume_def finish_def upper_RESUME Let_def monitor_trade_no_ticks
        add_trade_def save_trades_def)

theorem resume_monitors_last_trade_witness:
  "main (example_world\<lparr>args_side := ''RESUME'',
          w_trades_json := Stored [example_trade\<lparr>t_id := Some ''1600000000''\<rparr>, example_trade]\<rparr>)
   = \<lparr>ending = Interrupted,
      stored = Stored [example_trade\<lparr>t_id := Some ''1600000000''\<rparr>,
                       example_trade\<lparr>t_sl_moved := Some True\<rparr>],
      trace = [Get_klines ''B-BTC_USDT'' ''1m'' 1,
               Edit_order ''sl-1'' (Some 50000) (Some (Some 200)),
               Get_klines ''B-BTC_USDT'' ''1m'' 1]\<rparr> \<and>
   main (example_world\<lparr>args_side := ''RESUME''\<rparr>) =
     \<lparr>ending = No_open_trades, stored = Absent, trace = []\<rparr>"
  using resume_monitors_last_trade
    [of "example_world\<lparr>args_side := ''RESUME'',
          w_trades_json := Stored [example_trade\<lparr>t_id := Some ''1600000000''\<rparr>, example_trade]\<rparr>"]
    resume_monitors_last_trade [of "example_world\<lparr>args_side := ''RESUME''\<rparr>"]
  by (simp add: run_defs)

section \<open>Sizes and prices of the orders\<close>







text \<open>
  Claim C5, as amended. After a confirmed entry order, the stop-loss price and the target
  prices of the protective orders are those computed from the price recorded at entry,
  and that price is the planning-time price (the close of the latest candle of the
  planning fetch): the protective prices always equal the planned prices shown to the
  operator.
\<close>

theorem protective_prices_equal_plan:
  assumes "entry_confirmed (trace (main w)) = Some r"
  shows "\<exists>entry sl targets.
     displayed_plan (trace (main w)) = Some (entry, sl, targets) \<and>
     entry = c_close (last (w_klines w)) \<and>
     last (map t_entry_price (load_trades (stored (main w)))) = Some entry \<and>
     sl = get_candle_based_stop_loss entry (upper (args_side w))
            (c_high (w_klines w ! (length (w_klines w) - 2)))
            (c_low (w_klines w ! (length (w_klines w) - 2)))
            (cfg_sl_candle_multiplier (w_config w)) \<and>
     targets = calculate_fixed_point_targets entry (upper (args_side w))
                 (cfg_tp_fixed_points (w_config w)) \<and>
     map o_stop_price (take 1 (orders_of_type ''STOP_MARKET'' (trace (main w)))) = [Some sl] \<and>
     map o_price (orders_of_type ''LIMIT'' (trace (main w))) = map Some targets"
  using confirmed_observations [OF assms] by auto

theorem protective_prices_equal_plan_witness:
  "entry_confirmed (trace (main example_world)) =
     Some \<lparr>o_symbol = ''B-BTC_USDT'', o_side = ''buy'', o_qty = Some (5 / 1000),
           o_type = ''MARKET'', o_price = None, o_stop_price = None\<rparr> \<and>
   displayed_plan (trace (main example_world)) = Some (50000, 49800, [50300, 50500, 50800, 51000]) \<and>
   map o_stop_price (orders_of_type ''STOP_MARKET'' (trace (main example_world))) = [Some 49800] \<and>
   map o_price (orders_of_type ''LIMIT'' (trace (main example_world))) =
     [Some 50300, Some 50500, Some 50800, Some 51000]"
  using protective_prices_equal_plan [of example_world
      "\<lparr>o_symbol = ''B-BTC_USDT'', o_side = ''buy'', o_qty = Some (5 / 1000),
           o_type = ''MARKET'', o_price = None, o_stop_price = None\<rparr>"]
  by (simp add: example_run)

text \<open>
  The claim as stated says that in some run the re-planned protective prices differ from
  the planning-time prices. There is no such run.
\<close>

theorem replanned_prices_differ_counterexample:
  "\<not> (\<exists>w r entry sl targets.
        entry_confirmed (trace (main w)) = Some r \<and>
        displayed_plan (trace (main w)) = Some (entry, sl, targets) \<and>
        (map o_stop_price (take 1 (orders_of_type ''STOP_MARKET'' (trace (main w)))) \<noteq> [Some sl] \<or>
         map o_price (orders_of_type ''LIMIT'' (trace (main w))) \<noteq> map Some targets \<or>
         last (map t_entry_price (load_trades (stored (main w)))) \<noteq> Some entry))"
proof
  assume "\<exists>w r entry sl targets.
        entry_confirmed (trace (main w)) = Some r \<and>
        displayed_plan (trace (main w)) = Some (entry, sl, targets) \<and>
        (map o_stop_price (take 1 (orders_of_type ''STOP_MARKET'' (trace (main w)))) \<noteq> [Some sl] \<or>
         map o_price (orders_of_type ''LIMIT'' (trace (main w))) \<noteq> map Some targets \<or>
         last (map t_entry_price (load_trades (stored (main w)))) \<noteq> Some entry)"
  then obtain w r entry sl targets where
    c: "entry_confirmed (trace (main w)) = Some r"
    and d: "displayed_plan (trace (main w)) = Some (entry, sl, targets)"
    and n: "map o_stop_price (take 1 (orders_of_type ''STOP_MARKET'' (trace (main w)))) \<noteq> [Some sl] \<or>
         map o_price (orders_of_type ''LIMIT'' (trace (main w))) \<noteq> map Some targets \<or>
         last (map t_entry_price (load_trades (stored (main w)))) \<noteq> Some entry"
    by blast
  from confirmed_observations [OF c] d n show False by auto
qed

end
